theory Spec2Isabelle
  imports Main "HOL-Library.Word" "HOL-Library.Sublist"
begin

section \<open>Values shared by the whole client\<close>

text \<open>
  \<^verbatim>\<open>time.Duration\<close> is a signed 64-bit count of nanoseconds; Go's \<^verbatim>\<open>int\<close> is taken to be
  64 bits wide, as on amd64 and arm64. Both are \<open>64 word\<close>, read with \<open>sint\<close>; their
  arithmetic wraps around as Go's does.
\<close>

type_synonym Duration = "64 word"
type_synonym go_int = "64 word"

definition Second :: Duration where
  "Second = 1000000000"

definition pongTimeout :: Duration where
  "pongTimeout = 30 * Second"

definition pusherPing :: string where
  "pusherPing = ''pusher:ping''"
definition pusherPong :: string where
  "pusherPong = ''pusher:pong''"
definition pusherError :: string where
  "pusherError = ''pusher:error''"
definition pusherSubscribe :: string where
  "pusherSubscribe = ''pusher:subscribe''"
definition pusherUnsubscribe :: string where
  "pusherUnsubscribe = ''pusher:unsubscribe''"
definition pusherConnEstablished :: string where
  "pusherConnEstablished = ''pusher:connection_established''"
definition pusherSubSucceeded :: string where
  "pusherSubSucceeded = ''pusher:subscription_succeeded''"
definition pusherInternalSubSucceeded :: string where
  "pusherInternalSubSucceeded = ''pusher_internal:subscription_succeeded''"
definition pusherInternalMemberAdded :: string where
  "pusherInternalMemberAdded = ''pusher_internal:member_added''"
definition pusherInternalMemberRemoved :: string where
  "pusherInternalMemberRemoved = ''pusher_internal:member_removed''"

definition pingPayload :: string where
  "pingPayload = ''{\"event\":\"pusher:ping\",\"data\":\"{}\"}''"
definition pongPayload :: string where
  "pongPayload = ''{\"event\":\"pusher:pong\",\"data\":\"{}\"}''"

text \<open>
  Go errors. \<open>External\<close> is an error value made outside this package (the websocket
  library, \<^verbatim>\<open>encoding/json\<close>, the authentication call); \<open>Errorf\<close> is \<^verbatim>\<open>fmt.Errorf\<close> with its
  formatted message; \<open>Wrapf\<close> is \<^verbatim>\<open>fmt.Errorf\<close> with a \<^verbatim>\<open>%w\<close> verb, message prefix and
  wrapped cause; \<open>EventError\<close> is what \<^verbatim>\<open>extractEventError\<close> returns. An \<^verbatim>\<open>error\<close> variable
  is a \<open>go_error option\<close>, \<open>None\<close> being \<^verbatim>\<open>nil\<close>.
\<close>

datatype go_error =
    External string
  | Errorf string
  | Wrapf string go_error
  | EventError string

text \<open>The envelope, with the field names of the literal in \<^verbatim>\<open>SendEvent\<close>.\<close>

record Event =
  Event :: string
  Data :: string
  Channel :: string

text \<open>
  Modelled from the spec: \<^verbatim>\<open>extractEventError\<close> is defined outside \<^verbatim>\<open>client.go\<close>. The spec says
  only that an error envelope yields "the extracted protocol error", carrying the code
  and message the server put in the payload; the model keeps the payload.
\<close>

definition extractEventError :: "Event \<Rightarrow> go_error" where
  "extractEventError event = EventError (Data event)"

record connectionData =
  SocketID :: string
  ActivityTimeoutSecs :: go_int

text \<open>
  \<^verbatim>\<open>UnmarshalDataString\<close>: two \<^verbatim>\<open>json.Unmarshal\<close> calls, the first into a string, the second
  into the destination. The decoders belong to \<^verbatim>\<open>encoding/json\<close> and are parameters:
  \<open>js\<close> decodes a JSON string literal, \<open>jd\<close> decodes into the destination.
\<close>

definition UnmarshalDataString ::
  "(string \<Rightarrow> go_error + string) \<Rightarrow> (string \<Rightarrow> go_error + 'd) \<Rightarrow> string \<Rightarrow> go_error + 'd" where
  "UnmarshalDataString js jd data =
     (case js data of
        Inl err \<Rightarrow> Inl err
      | Inr dataStr \<Rightarrow> jd dataStr)"

subsection \<open>Go channels, the transport and the timer\<close>

text \<open>
  A Go channel as far as a sender sees it: \<open>buf\<close> holds the values sent on it, oldest
  first, \<open>cap\<close> is how many values it takes before a send has to wait (buffer slots, and
  receivers already waiting on it), \<open>closed\<close> says whether \<^verbatim>\<open>close\<close> was called.
\<close>

record 'a chan =
  cap :: nat
  buf :: "'a list"
  closed :: bool

definition make_chan :: "nat \<Rightarrow> 'a chan" where
  "make_chan n = \<lparr>cap = n, buf = [], closed = False\<rparr>"

text \<open>
  What a statement that may panic or wait forever comes to: \<open>Done\<close> with the state
  and the value returned, \<open>Panicked\<close> (send on or close of a closed channel, close of a nil
  channel, write to a nil map, nil connection), or \<open>Blocked\<close> (a send that no receiver
  takes).
\<close>

datatype 'a outcome = Done 'a | Panicked | Blocked

text \<open>\<^verbatim>\<open>ch <- v\<close> outside a \<^verbatim>\<open>select\<close>.\<close>

definition chan_send :: "'a chan \<Rightarrow> 'a \<Rightarrow> 'a chan outcome" where
  "chan_send ch v =
     (if closed ch then Panicked
      else if length (buf ch) < cap ch then Done (ch\<lparr>buf := buf ch @ [v]\<rparr>)
      else Blocked)"

text \<open>
  \<^verbatim>\<open>select { case ch <- v: default: }\<close>: the send happens when it can proceed at once, and
  is skipped otherwise. \<open>None\<close> is the panic of a send on a closed channel.
\<close>

definition chan_try_send :: "'a chan \<Rightarrow> 'a \<Rightarrow> 'a chan option" where
  "chan_try_send ch v =
     (if closed ch then None
      else if length (buf ch) < cap ch then Some (ch\<lparr>buf := buf ch @ [v]\<rparr>)
      else Some ch)"

definition chan_close :: "'a chan \<Rightarrow> 'a chan option" where
  "chan_close ch = (if closed ch then None else Some (ch\<lparr>closed := True\<rparr>))"

text \<open>
  The websocket connection, seen from the client: \<open>writes\<close> is every frame handed to a
  \<^verbatim>\<open>Send\<close> call, in order; \<open>fault\<close> is the error every write and \<^verbatim>\<open>Close\<close> returns once the
  connection is closed or broken. What a \<^verbatim>\<open>Receive\<close> returns is a parameter of the function
  that calls it.
\<close>

datatype frame = JSONFrame Event | TextFrame string

record Conn =
  writes :: "frame list"
  fault :: "go_error option"

definition ws_send :: "Conn \<Rightarrow> frame \<Rightarrow> Conn \<times> go_error option" where
  "ws_send conn f = (conn\<lparr>writes := writes conn @ [f]\<rparr>, fault conn)"

definition ws_close :: "Conn \<Rightarrow> Conn \<times> go_error option" where
  "ws_close conn =
     (case fault conn of
        None \<Rightarrow> (conn\<lparr>fault := Some (External ''use of closed network connection'')\<rparr>, None)
      | Some e \<Rightarrow> (conn, Some e))"

text \<open>
  \<^verbatim>\<open>time.Timer\<close> without the clock: \<open>running\<close> until it expires or is stopped, \<open>tick\<close> when
  a value waits in its channel \<^verbatim>\<open>C\<close>, \<open>period\<close> the duration it was last armed with.
\<close>

record Timer =
  running :: bool
  tick :: bool
  period :: Duration

definition NewTimer :: "Duration \<Rightarrow> Timer" where
  "NewTimer d = \<lparr>running = True, tick = False, period = d\<rparr>"

definition timer_expire :: "Timer \<Rightarrow> Timer" where
  "timer_expire t = (if running t then t\<lparr>running := False, tick := True\<rparr> else t)"

section \<open>The client\<close>

text \<open>
  Channels are referred to by number; \<open>None\<close> is a nil channel. Channel entries live in a
  heap and are referred to by address, since the registry holds pointers and \<^verbatim>\<open>Subscribe\<close>
  hands the same pointer back. A map field is \<open>None\<close> while the Go map is nil.
\<close>

type_synonym chan_ref = "nat option"
type_synonym addr = nat

datatype variant = PublicChannel | PrivateChannel | PresenceChannel

text \<open>
  Modelled from the spec: the \<^verbatim>\<open>channel\<close> struct is declared outside \<^verbatim>\<open>client.go\<close>. \<open>name\<close>
  and \<open>chBoundEvents\<close> are the fields the literal in \<^verbatim>\<open>Subscribe\<close> sets (its \<^verbatim>\<open>client\<close> is
  the enclosing state); \<open>state\<close> is the subscription state the spec gives an entry
  (unsubscribed, subscribing, subscribed) and \<open>members\<close> the member map of the presence
  variant. \<open>wrapper\<close> says which of \<^verbatim>\<open>*channel\<close>, \<^verbatim>\<open>*privateChannel\<close> and
  \<^verbatim>\<open>*presenceChannel\<close> the registry holds.
\<close>

datatype substate = Unsubscribed | Subscribing | Subscribed

record channel =
  name :: string
  chBoundEvents :: "string \<rightharpoonup> nat list"
  wrapper :: variant
  state :: substate
  members :: "string \<rightharpoonup> string"

record Client =
  Errors :: chan_ref
  closes :: "chan_ref list"
  disconnectErr :: "go_error option"
  socketID :: string
  ActivityTimeout :: Duration
  activityTimeout' :: Duration
  ws :: "Conn option"
  connected :: bool
  activityTimer :: "Timer option"
  activityTimerReset :: "unit chan option"
  boundEvents :: "(string \<rightharpoonup> nat list) option"
  subscribedChannels :: "(string \<rightharpoonup> addr) option"

text \<open>
  The client together with what its pointers and channel values refer to: \<open>errChans\<close>
  are the \<^verbatim>\<open>chan error\<close> values (\<^verbatim>\<open>Errors\<close> and the close listeners), \<open>nextChan\<close> the next
  unused \<^verbatim>\<open>chan Event\<close> number, \<open>entries\<close> the channel entries by address, \<open>nextAddr\<close> the
  next unused address, \<open>deliveries\<close> the goroutines started by the read loop, each one
  blocking send of an envelope on a bound \<^verbatim>\<open>chan Event\<close>, \<open>dataDeliveries\<close> the sends a
  channel entry starts on its own bound channels, and \<open>loops\<close> how many times the pair
  \<^verbatim>\<open>heartbeat\<close>, \<^verbatim>\<open>listen\<close> was started.
\<close>

record world = Client +
  errChans :: "nat \<Rightarrow> go_error option chan"
  nextChan :: nat
  entries :: "addr \<rightharpoonup> channel"
  nextAddr :: addr
  deliveries :: "(nat \<times> Event) list"
  dataDeliveries :: "(nat \<times> string) list"
  loops :: nat

text \<open>The zero \<^verbatim>\<open>Client\<close>, with the exported fields the caller may set before \<^verbatim>\<open>Connect\<close>.\<close>

definition newClient :: "chan_ref \<Rightarrow> Duration \<Rightarrow> (nat \<Rightarrow> go_error option chan) \<Rightarrow> world" where
  "newClient errs timeout chans =
     \<lparr>Errors = errs, closes = [], disconnectErr = None, socketID = [],
      ActivityTimeout = timeout, activityTimeout' = 0, ws = None, connected = False,
      activityTimer = None, activityTimerReset = None, boundEvents = None,
      subscribedChannels = None,
      errChans = chans, nextChan = 0, entries = Map.empty, nextAddr = 0,
      deliveries = [], dataDeliveries = [], loops = 0\<rparr>"

definition NotifyClose :: "chan_ref \<Rightarrow> world \<Rightarrow> world \<times> chan_ref" where
  "NotifyClose ch c = (c\<lparr>closes := closes c @ [ch]\<rparr>, ch)"

text \<open>
  \<^verbatim>\<open>Connect\<close>. \<open>dial\<close> is what \<^verbatim>\<open>websocket.Dial\<close> returns and \<open>recv\<close> what the one
  \<^verbatim>\<open>websocket.JSON.Receive\<close> returns. The assignment \<^verbatim>\<open>c.ws, err = websocket.Dial(...)\<close>
  stores nil on failure. The URL of \<^verbatim>\<open>generateConnURL\<close> only goes to \<^verbatim>\<open>Dial\<close> and is left out;
  the two \<^verbatim>\<open>go\<close> statements are counted in \<open>loops\<close>.
\<close>

definition Connect ::
  "(string \<Rightarrow> go_error + string) \<Rightarrow> (string \<Rightarrow> go_error + connectionData) \<Rightarrow>
   go_error + Conn \<Rightarrow> go_error + Event \<Rightarrow> world \<Rightarrow> world \<times> go_error option" where
  "Connect js jd dial recv c =
     (case dial of
        Inl err \<Rightarrow> (c\<lparr>ws := None\<rparr>, Some err)
      | Inr conn \<Rightarrow>
          let c = c\<lparr>ws := Some conn\<rparr> in
          (case recv of
             Inl err \<Rightarrow> (c, Some err)
           | Inr event \<Rightarrow>
               if Event event = pusherError then (c, Some (extractEventError event))
               else if Event event = pusherConnEstablished then
                 (case UnmarshalDataString js jd (Data event) of
                    Inl err \<Rightarrow> (c, Some err)
                  | Inr connData \<Rightarrow>
                      let timeout =
                            (if 0 < sint (ActivityTimeout c) then ActivityTimeout c
                             else ActivityTimeoutSecs connData * Second)
                      in (c\<lparr>connected := True,
                             socketID := SocketID connData,
                             activityTimeout' := timeout,
                             activityTimer := Some (NewTimer timeout),
                             activityTimerReset := Some (make_chan 1),
                             boundEvents := Some Map.empty,
                             subscribedChannels := Some Map.empty,
                             disconnectErr := None,
                             loops := loops c + 1\<rparr>, None))
               else (c, Some (Errorf (''Got unknown event type from Pusher: '' @ Event event)))))"

definition isConnected :: "world \<Rightarrow> bool" where
  "isConnected c = connected c"


subsection \<open>The activity timer\<close>

text \<open>
  \<^verbatim>\<open>resetActivityTimer\<close>: a \<^verbatim>\<open>select\<close> with one send case and a \<^verbatim>\<open>default\<close>. A nil channel is
  never ready, so the \<^verbatim>\<open>default\<close> is taken. \<open>None\<close> is the panic of a send on a closed
  channel.
\<close>

definition resetActivityTimer :: "world \<Rightarrow> world option" where
  "resetActivityTimer c =
     (case activityTimerReset c of
        None \<Rightarrow> Some c
      | Some ch \<Rightarrow>
          (case chan_try_send ch () of
             None \<Rightarrow> None
           | Some ch' \<Rightarrow> Some (c\<lparr>activityTimerReset := Some ch'\<rparr>)))"

text \<open>
  The body of the loop of \<^verbatim>\<open>heartbeat\<close> is one \<^verbatim>\<open>select\<close> over two receives. Which ready
  case runs is the scheduler's choice, so the case is an argument; a case that is not
  ready is \<open>Blocked\<close>. Both channel operands are evaluated on entry, so a nil timer
  panics whatever the case. A receive on a closed channel is ready and yields the zero
  value. \<^verbatim>\<open>Stop\<close> reports whether the timer was running; when it was not, the pending tick
  is drained; \<^verbatim>\<open>Reset\<close> arms the timer with \<^verbatim>\<open>_activityTimeout\<close>. The error of the ping's
  \<^verbatim>\<open>Send\<close> is dropped.
\<close>

datatype select_case = ResetCase | TimerCase

definition heartbeat_body :: "select_case \<Rightarrow> world \<Rightarrow> world outcome" where
  "heartbeat_body k c =
     (case activityTimer c of
        None \<Rightarrow> Panicked
      | Some t \<Rightarrow>
          (case k of
             ResetCase \<Rightarrow>
               (case activityTimerReset c of
                  None \<Rightarrow> Blocked
                | Some ch \<Rightarrow>
                    if buf ch = [] \<and> \<not> closed ch then Blocked
                    else
                      let ch' = ch\<lparr>buf := tl (buf ch)\<rparr>;
                          t' = (if running t then t\<lparr>running := False\<rparr>
                                else t\<lparr>tick := False\<rparr>);
                          t'' = t'\<lparr>running := True, period := activityTimeout' c\<rparr>
                      in Done (c\<lparr>activityTimerReset := Some ch', activityTimer := Some t''\<rparr>))
           | TimerCase \<Rightarrow>
               if \<not> tick t then Blocked
               else
                 (case ws c of
                    None \<Rightarrow> Panicked
                  | Some conn \<Rightarrow>
                      Done (c\<lparr>activityTimer := Some (t\<lparr>tick := False\<rparr>),
                              ws := Some (fst (ws_send conn (TextFrame pingPayload)))\<rparr>))))"

text \<open>
  \<^verbatim>\<open>heartbeat\<close>, run on the cases the scheduler picks: the loop ends when the session is
  no longer connected; an exhausted list leaves it waiting in the \<^verbatim>\<open>select\<close>.
\<close>

fun heartbeat :: "select_case list \<Rightarrow> world \<Rightarrow> world outcome" where
  "heartbeat [] c = Done c"
| "heartbeat (k # ks) c =
     (if \<not> isConnected c then Done c
      else (case heartbeat_body k c of
              Done c' \<Rightarrow> heartbeat ks c'
            | Panicked \<Rightarrow> Panicked
            | Blocked \<Rightarrow> Blocked))"

subsection \<open>Errors and disconnecting\<close>

definition sendError :: "go_error \<Rightarrow> world \<Rightarrow> world option" where
  "sendError err c =
     (case Errors c of
        None \<Rightarrow> Some c
      | Some i \<Rightarrow>
          (case chan_try_send (errChans c i) (Some err) of
             None \<Rightarrow> None
           | Some ch \<Rightarrow> Some (c\<lparr>errChans := (errChans c)(i := ch)\<rparr>)))"

text \<open>
  The loop of \<^verbatim>\<open>Disconnect\<close> over \<^verbatim>\<open>c.closes\<close>: a blocking send of \<open>v\<close>, then \<^verbatim>\<open>close\<close>. A send
  on a nil channel waits forever.
\<close>

fun broadcast ::
  "go_error option \<Rightarrow> chan_ref list \<Rightarrow> (nat \<Rightarrow> go_error option chan) \<Rightarrow>
   (nat \<Rightarrow> go_error option chan) outcome" where
  "broadcast v [] chans = Done chans"
| "broadcast v (None # rest) chans = Blocked"
| "broadcast v (Some i # rest) chans =
     (case chan_send (chans i) v of
        Panicked \<Rightarrow> Panicked
      | Blocked \<Rightarrow> Blocked
      | Done ch1 \<Rightarrow>
          (case chan_close ch1 of
             None \<Rightarrow> Panicked
           | Some ch2 \<Rightarrow> broadcast v rest (chans(i := ch2))))"

definition closeValue :: "go_error option \<Rightarrow> go_error option" where
  "closeValue derr =
     (case derr of
        Some e \<Rightarrow> Some (Wrapf ''pusher connection closed with error: '' e)
      | None \<Rightarrow> None)"

definition Disconnect :: "world \<Rightarrow> (world \<times> go_error option) outcome" where
  "Disconnect c0 =
     (let c = c0\<lparr>connected := False\<rparr> in
      case broadcast (closeValue (disconnectErr c)) (closes c) (errChans c) of
        Panicked \<Rightarrow> Panicked
      | Blocked \<Rightarrow> Blocked
      | Done chans \<Rightarrow>
          let c = c\<lparr>errChans := chans, closes := []\<rparr> in
          (case ws c of
             Some conn \<Rightarrow>
               (case ws_close conn of (conn', r) \<Rightarrow> Done (c\<lparr>ws := Some conn'\<rparr>, r))
           | None \<Rightarrow> Done (c, None)))"

subsection \<open>Sending\<close>

text \<open>
  \<^verbatim>\<open>SendEvent\<close>. \<open>marshalled\<close> is what \<^verbatim>\<open>json.Marshal(data)\<close> returns. \<^verbatim>\<open>websocket.JSON.Send\<close> on
  a nil connection panics.
\<close>

definition SendEvent ::
  "string \<Rightarrow> go_error + string \<Rightarrow> string \<Rightarrow> world \<Rightarrow> (world \<times> go_error option) outcome" where
  "SendEvent event marshalled channelName c =
     (case marshalled of
        Inl err \<Rightarrow> Done (c, Some err)
      | Inr dataJSON \<Rightarrow>
          let e = \<lparr>Event = event, Data = dataJSON, Channel = channelName\<rparr> in
          (case resetActivityTimer c of
             None \<Rightarrow> Panicked
           | Some c \<Rightarrow>
               (case ws c of
                  None \<Rightarrow> Panicked
                | Some conn \<Rightarrow>
                    (case ws_send conn (JSONFrame e) of
                       (conn', r) \<Rightarrow> Done (c\<lparr>ws := Some conn'\<rparr>, r)))))"

subsection \<open>Bindings and the read loop\<close>

text \<open>
  A \<^verbatim>\<open>boundEventChans\<close> set is its list of members, without repetition; the order in which
  Go ranges over it is not fixed, so nothing is claimed about the order of the list.
  Reading a nil map gives the zero value; writing to one panics.
\<close>

definition boundChans :: "world \<Rightarrow> string \<Rightarrow> nat list" where
  "boundChans c event =
     (case boundEvents c of
        None \<Rightarrow> []
      | Some m \<Rightarrow> (case m event of None \<Rightarrow> [] | Some chs \<Rightarrow> chs))"

definition Bind :: "string \<Rightarrow> world \<Rightarrow> (world \<times> nat) outcome" where
  "Bind event c =
     (let boundChan = nextChan c; c = c\<lparr>nextChan := nextChan c + 1\<rparr> in
      case boundEvents c of
        None \<Rightarrow> Panicked
      | Some m \<Rightarrow>
          let m = (if m event = None then m(event \<mapsto> []) else m);
              eventBoundChans = (case m event of None \<Rightarrow> [] | Some chs \<Rightarrow> chs)
          in Done (c\<lparr>boundEvents := Some (m(event \<mapsto> eventBoundChans @ [boundChan]))\<rparr>,
                   boundChan))"

definition Unbind :: "string \<Rightarrow> nat list \<Rightarrow> world \<Rightarrow> world" where
  "Unbind event chans c =
     (case boundEvents c of
        None \<Rightarrow> c
      | Some m \<Rightarrow>
          if length chans = 0 then c\<lparr>boundEvents := Some (m(event := None))\<rparr>
          else (case m event of
                  None \<Rightarrow> c
                | Some eventBoundChans \<Rightarrow>
                    c\<lparr>boundEvents :=
                        Some (m(event \<mapsto> filter (\<lambda>x. x \<notin> set chans) eventBoundChans))\<rparr>))"

text \<open>
  \<^verbatim>\<open>handleEvent\<close> of a channel entry is defined outside \<^verbatim>\<open>client.go\<close>; the read loop takes it
  as the parameter \<open>he\<close>: from the entry, the event name and the payload to the entry
  afterwards and the sends it starts on the entry's own bound channels.
\<close>

type_synonym handler = "channel \<Rightarrow> string \<Rightarrow> string \<Rightarrow> channel \<times> (nat \<times> string) list"

definition dispatch :: "handler \<Rightarrow> Event \<Rightarrow> world \<Rightarrow> world" where
  "dispatch he event c =
     (let c = c\<lparr>deliveries := deliveries c @ map (\<lambda>boundChan. (boundChan, event))
                                               (boundChans c (Event event))\<rparr> in
      case (case subscribedChannels c of None \<Rightarrow> None | Some m \<Rightarrow> m (Channel event)) of
        None \<Rightarrow> c
      | Some a \<Rightarrow>
          (case entries c a of
             None \<Rightarrow> c
           | Some subChan \<Rightarrow>
               (case he subChan (Event event) (Data event) of
                  (subChan', sends) \<Rightarrow>
                    c\<lparr>entries := (entries c)(a \<mapsto> subChan'),
                      dataDeliveries := dataDeliveries c @ sends\<rparr>)))"

text \<open>
  One turn of the loop of \<^verbatim>\<open>listen\<close>, from the moment \<^verbatim>\<open>Receive\<close> returns \<open>recv\<close>, on the state
  of that moment (another goroutine may have disconnected while the read was waiting).
  The result says whether the loop goes on. The read deadline is real time and is left
  out. The error of the pong's \<^verbatim>\<open>Send\<close> is dropped.
\<close>

definition listen_body ::
  "handler \<Rightarrow> go_error + Event \<Rightarrow> world \<Rightarrow> (world \<times> bool) outcome" where
  "listen_body he recv c =
     (case recv of
        Inl err \<Rightarrow>
          if \<not> isConnected c then Done (c, False)
          else
            (case sendError err c of
               None \<Rightarrow> Panicked
             | Some c \<Rightarrow>
                 (case Disconnect (c\<lparr>disconnectErr := Some err\<rparr>) of
                    Panicked \<Rightarrow> Panicked
                  | Blocked \<Rightarrow> Blocked
                  | Done (c, r) \<Rightarrow> Done (c, False)))
      | Inr event \<Rightarrow>
          (case resetActivityTimer c of
             None \<Rightarrow> Panicked
           | Some c \<Rightarrow>
               if Event event = pusherPing then
                 (case ws c of
                    None \<Rightarrow> Panicked
                  | Some conn \<Rightarrow>
                      Done (c\<lparr>ws := Some (fst (ws_send conn (TextFrame pongPayload)))\<rparr>, True))
               else if Event event = pusherPong then Done (c, True)
               else if Event event = pusherError then
                 (case sendError (extractEventError event) c of
                    None \<Rightarrow> Panicked
                  | Some c \<Rightarrow> Done (c, True))
               else Done (dispatch he event c, True)))"

text \<open>
  \<^verbatim>\<open>listen\<close> on the results of successive reads; an exhausted list leaves the loop waiting
  in \<^verbatim>\<open>Receive\<close>.
\<close>

fun listen :: "handler \<Rightarrow> (go_error + Event) list \<Rightarrow> world \<Rightarrow> world outcome" where
  "listen he [] c = Done c"
| "listen he (recv # rs) c =
     (if \<not> isConnected c then Done c
      else (case listen_body he recv c of
              Done (c', goOn) \<Rightarrow> if goOn then listen he rs c' else Done c'
            | Panicked \<Rightarrow> Panicked
            | Blocked \<Rightarrow> Blocked))"


subsection \<open>The channel registry\<close>

text \<open>\<^verbatim>\<open>strings.HasPrefix\<close>, as the Go library defines it.\<close>

definition HasPrefix :: "string \<Rightarrow> string \<Rightarrow> bool" where
  "HasPrefix s p = (length p \<le> length s \<and> take (length p) s = p)"

text \<open>
  Modelled from the spec: the options of a subscription and the payload of a subscribe or
  unsubscribe request are declared outside \<^verbatim>\<open>client.go\<close>. An option is the caller-supplied
  channel data; the payload holds the channel name and, if present, the auth signature
  and the channel data. \<open>marshaller\<close> is \<^verbatim>\<open>json.Marshal\<close> on the payload and \<open>authorizer\<close>
  the auth collaborator: from the channel name, the socket id and the options to a
  signature and optional channel data, or an error.
\<close>

type_synonym SubscribeOption = string

record subscribeData =
  sdChannel :: string
  sdAuth :: "string option"
  sdChannelData :: "string option"

type_synonym marshaller = "subscribeData \<Rightarrow> go_error + string"
type_synonym authorizer =
  "string \<Rightarrow> string \<Rightarrow> SubscribeOption list \<Rightarrow> go_error + string \<times> string option"

text \<open>
  Modelled from the spec: \<^verbatim>\<open>Subscribe\<close> of a channel entry is defined outside \<^verbatim>\<open>client.go\<close>.
  The spec: subscribing to an already subscribed channel is a no-op success; otherwise
  the entry moves to subscribing and, where authentication is required (private and
  presence), the auth collaborator is invoked with the channel name and the session's
  socket id, plus any caller-supplied channel data; on auth failure the error is returned
  and the entry remains subscribing; on auth success, or at once for a public channel, a
  subscribe envelope is sent with the channel name and, if present, the signature and
  channel data. The envelope goes out through \<open>SendEvent\<close> with an empty channel field.
  Calling the method through a nil entry panics.
\<close>

definition channel_Subscribe ::
  "marshaller \<Rightarrow> authorizer \<Rightarrow> SubscribeOption list \<Rightarrow> addr \<Rightarrow> world \<Rightarrow>
   (world \<times> go_error option) outcome" where
  "channel_Subscribe enc auth opts a c =
     (case entries c a of
        None \<Rightarrow> Panicked
      | Some ch \<Rightarrow>
          if state ch = Subscribed then Done (c, None)
          else
            let c = c\<lparr>entries := (entries c)(a \<mapsto> ch\<lparr>state := Subscribing\<rparr>)\<rparr> in
            if wrapper ch = PublicChannel then
              SendEvent pusherSubscribe
                (enc \<lparr>sdChannel = name ch, sdAuth = None, sdChannelData = None\<rparr>) [] c
            else
              (case auth (name ch) (socketID c) opts of
                 Inl err \<Rightarrow> Done (c, Some err)
               | Inr (signature, channelData) \<Rightarrow>
                   SendEvent pusherSubscribe
                     (enc \<lparr>sdChannel = name ch, sdAuth = Some signature,
                           sdChannelData = channelData\<rparr>) [] c))"

text \<open>
  Modelled from the spec: \<^verbatim>\<open>Unsubscribe\<close> of a channel entry is defined outside \<^verbatim>\<open>client.go\<close>.
  The spec: unsubscribing sends an unsubscribe protocol envelope; a nil return says only
  that the request was sent.
\<close>

definition channel_Unsubscribe ::
  "marshaller \<Rightarrow> channel \<Rightarrow> world \<Rightarrow> (world \<times> go_error option) outcome" where
  "channel_Unsubscribe enc ch c =
     SendEvent pusherUnsubscribe
       (enc \<lparr>sdChannel = name ch, sdAuth = None, sdChannelData = None\<rparr>) [] c"

text \<open>
  \<^verbatim>\<open>Subscribe\<close>. \<open>lookupChannel\<close> is the read of the registry (a nil map has no entry),
  \<open>classify\<close> the \<^verbatim>\<open>switch\<close> on the prefix, in its order, and \<open>register\<close> the part of the
  method up to the \<^verbatim>\<open>return\<close>: a new entry is allocated at the next free address and stored
  in the registry, which panics when the registry is nil. Whether the entry is new or
  not, the method ends with the entry's own \<^verbatim>\<open>Subscribe\<close>.
\<close>

definition lookupChannel :: "world \<Rightarrow> string \<Rightarrow> addr option" where
  "lookupChannel c channelName =
     (case subscribedChannels c of None \<Rightarrow> None | Some m \<Rightarrow> m channelName)"

definition classify :: "string \<Rightarrow> variant" where
  "classify channelName =
     (if HasPrefix channelName ''private-'' then PrivateChannel
      else if HasPrefix channelName ''presence-'' then PresenceChannel
      else PublicChannel)"

definition register :: "string \<Rightarrow> world \<Rightarrow> (world \<times> addr) outcome" where
  "register channelName c =
     (case lookupChannel c channelName of
        Some ch \<Rightarrow> Done (c, ch)
      | None \<Rightarrow>
          let baseChan = \<lparr>name = channelName, chBoundEvents = Map.empty,
                          wrapper = classify channelName, state = Unsubscribed,
                          members = Map.empty\<rparr>;
              ch = nextAddr c;
              c = c\<lparr>entries := (entries c)(ch \<mapsto> baseChan), nextAddr := nextAddr c + 1\<rparr>
          in (case subscribedChannels c of
                None \<Rightarrow> Panicked
              | Some m \<Rightarrow> Done (c\<lparr>subscribedChannels := Some (m(channelName \<mapsto> ch))\<rparr>, ch)))"

definition Subscribe ::
  "marshaller \<Rightarrow> authorizer \<Rightarrow> string \<Rightarrow> SubscribeOption list \<Rightarrow> world \<Rightarrow>
   (world \<times> addr \<times> go_error option) outcome" where
  "Subscribe enc auth channelName opts c =
     (case register channelName c of
        Panicked \<Rightarrow> Panicked
      | Blocked \<Rightarrow> Blocked
      | Done (c, ch) \<Rightarrow>
          (case channel_Subscribe enc auth opts ch c of
             Panicked \<Rightarrow> Panicked
           | Blocked \<Rightarrow> Blocked
           | Done (c, err) \<Rightarrow> Done (c, ch, err)))"

text \<open>
  \<^verbatim>\<open>SubscribePresence\<close>: the type assertion \<^verbatim>\<open>ch.(*presenceChannel)\<close> panics on another
  variant.
\<close>

definition SubscribePresence ::
  "marshaller \<Rightarrow> authorizer \<Rightarrow> string \<Rightarrow> SubscribeOption list \<Rightarrow> world \<Rightarrow>
   (world \<times> addr option \<times> go_error option) outcome" where
  "SubscribePresence enc auth channelName opts c =
     (if \<not> HasPrefix channelName ''presence-'' then
        Done (c, None,
              Some (Errorf (''invalid presence channel name, must start with 'presence-': ''
                            @ channelName)))
      else
        (case Subscribe enc auth channelName opts c of
           Panicked \<Rightarrow> Panicked
         | Blocked \<Rightarrow> Blocked
         | Done (c, ch, subscribeErr) \<Rightarrow>
             (case entries c ch of
                None \<Rightarrow> Panicked
              | Some e \<Rightarrow>
                  if wrapper e = PresenceChannel then Done (c, Some ch, subscribeErr)
                  else Panicked)))"

definition Unsubscribe ::
  "marshaller \<Rightarrow> string \<Rightarrow> world \<Rightarrow> (world \<times> go_error option) outcome" where
  "Unsubscribe enc channelName c =
     (case lookupChannel c channelName of
        None \<Rightarrow> Done (c, None)
      | Some a \<Rightarrow>
          (case entries c a of
             None \<Rightarrow> Panicked
           | Some ch \<Rightarrow>
               channel_Unsubscribe enc ch
                 (c\<lparr>subscribedChannels :=
                      map_option (\<lambda>m. m(channelName := None)) (subscribedChannels c)\<rparr>)))"


section \<open>Notions used in the statements\<close>

text \<open>
  Close listeners that \<^verbatim>\<open>Disconnect\<close> can serve: each registered once, none nil, none
  closed, each able to take one more value.
\<close>

definition ready :: "go_error option chan \<Rightarrow> bool" where
  "ready ch = (\<not> closed ch \<and> length (buf ch) < cap ch)"

definition listeners_ready :: "(nat \<Rightarrow> go_error option chan) \<Rightarrow> chan_ref list \<Rightarrow> bool" where
  "listeners_ready chans refs =
     (distinct refs \<and> list_all (\<lambda>r. case r of None \<Rightarrow> False | Some i \<Rightarrow> ready (chans i)) refs)"

text \<open>\<open>n\<close> reset requests in a row.\<close>

fun requests :: "nat \<Rightarrow> world \<Rightarrow> world option" where
  "requests 0 c = Some c"
| "requests (Suc n) c =
     (case resetActivityTimer c of None \<Rightarrow> None | Some c' \<Rightarrow> requests n c')"

text \<open>
  A client whose connection handle was never established: a new client, on which
  listeners were registered, whose \<^verbatim>\<open>Connect\<close> calls all failed to dial, and whose listeners'
  channels the caller may have used in the meantime.
\<close>

inductive never_established :: "world \<Rightarrow> bool" where
  fresh: "never_established (newClient errs timeout chans)"
| notify: "never_established c \<Longrightarrow> never_established (fst (NotifyClose ch c))"
| dial_failed: "never_established c \<Longrightarrow> never_established (fst (Connect js jd (Inl err) recv c))"
| channels: "never_established c \<Longrightarrow> never_established (c\<lparr>errChans := chans\<rparr>)"

text \<open>Reading an outcome, and running one call after another.\<close>

definition result :: "'a outcome \<Rightarrow> 'a option" where
  "result out = (case out of Done x \<Rightarrow> Some x | Panicked \<Rightarrow> None | Blocked \<Rightarrow> None)"

definition and_then :: "'a outcome \<Rightarrow> ('a \<Rightarrow> 'b outcome) \<Rightarrow> 'b outcome" where
  "and_then out f = (case out of Done x \<Rightarrow> f x | Panicked \<Rightarrow> Panicked | Blocked \<Rightarrow> Blocked)"

subsection \<open>Inputs for the worked examples\<close>

text \<open>
  Stand-ins for the collaborators: a string decoder that returns its input, a decoder of
  the connection data that takes the socket id from the text and the timeout from \<open>n\<close>,
  a marshaller that returns the channel name, an auth call that signs with the socket id,
  a \<^verbatim>\<open>handleEvent\<close> that does nothing. \<open>established n t\<close> is a new client with override
  \<open>t\<close>, no error channel and listener channels of capacity one, after a handshake in
  which the server suggested \<open>n\<close> seconds.
\<close>

definition plainString :: "string \<Rightarrow> go_error + string" where
  "plainString s = Inr s"

definition connDataOf :: "go_int \<Rightarrow> string \<Rightarrow> go_error + connectionData" where
  "connDataOf n s = Inr \<lparr>SocketID = s, ActivityTimeoutSecs = n\<rparr>"

definition nameOnly :: marshaller where
  "nameOnly d = Inr (sdChannel d)"

definition signWithSocket :: authorizer where
  "signWithSocket channelName sock opts = Inr (sock, None)"

definition noHandler :: handler where
  "noHandler ch event data = (ch, [])"

definition freshConn :: Conn where
  "freshConn = \<lparr>writes = [], fault = None\<rparr>"

definition hello :: Event where
  "hello = \<lparr>Event = pusherConnEstablished, Data = ''1.1'', Channel = []\<rparr>"

definition memberAdded :: Event where
  "memberAdded = \<lparr>Event = pusherInternalMemberAdded, Data = ''{}'', Channel = ''presence-x''\<rparr>"

definition established :: "go_int \<Rightarrow> Duration \<Rightarrow> world" where
  "established n t =
     fst (Connect plainString (connDataOf n) (Inr freshConn) (Inr hello)
            (newClient None t (\<lambda>i. make_chan 1)))"

text \<open>The client \<open>established 120 0\<close> after one \<^verbatim>\<open>Subscribe\<close> to the public channel \<^verbatim>\<open>news\<close>.\<close>

definition subscribedToNews :: world where
  "subscribedToNews =
     (established 120 0)
       \<lparr>entries := [0 \<mapsto> \<lparr>name = ''news'', chBoundEvents = Map.empty,
                           wrapper = PublicChannel, state = Subscribing,
                           members = Map.empty\<rparr>],
         nextAddr := 1,
         subscribedChannels := Some [''news'' \<mapsto> 0],
         activityTimerReset := Some \<lparr>cap = 1, buf = [()], closed = False\<rparr>,
         ws := Some \<lparr>writes = [JSONFrame \<lparr>Event = pusherSubscribe, Data = ''news'',
                                            Channel = []\<rparr>],
                     fault = None\<rparr>\<rparr>"

section \<open>Properties\<close>

lemmas event_names =
  pusherPing_def pusherPong_def pusherError_def pusherSubscribe_def pusherUnsubscribe_def
  pusherConnEstablished_def pusherSubSucceeded_def pusherInternalSubSucceeded_def
  pusherInternalMemberAdded_def pusherInternalMemberRemoved_def

lemmas example_defs =
  plainString_def connDataOf_def nameOnly_def signWithSocket_def noHandler_def freshConn_def
  hello_def memberAdded_def established_def newClient_def make_chan_def NewTimer_def Second_def
  result_def and_then_def

subsection \<open>Frame lemmas\<close>

lemma resetActivityTimer_fields:
  assumes "resetActivityTimer c = Some c'"
  shows "deliveries c' = deliveries c" "boundEvents c' = boundEvents c"
    "subscribedChannels c' = subscribedChannels c" "entries c' = entries c"
    "connected c' = connected c" "closes c' = closes c" "disconnectErr c' = disconnectErr c"
    "ws c' = ws c" "errChans c' = errChans c" "Errors c' = Errors c"
    "activityTimer c' = activityTimer c" "dataDeliveries c' = dataDeliveries c"
    "nextAddr c' = nextAddr c" "socketID c' = socketID c"
  using assms by (auto simp: resetActivityTimer_def split: option.splits)

lemma sendError_fields:
  assumes "sendError err c = Some c'"
  shows "deliveries c' = deliveries c" "boundEvents c' = boundEvents c"
    "subscribedChannels c' = subscribedChannels c" "entries c' = entries c"
    "connected c' = connected c" "closes c' = closes c" "disconnectErr c' = disconnectErr c"
    "ws c' = ws c" "activityTimerReset c' = activityTimerReset c" "Errors c' = Errors c"
    "activityTimer c' = activityTimer c" "dataDeliveries c' = dataDeliveries c"
  using assms by (auto simp: sendError_def split: option.splits)

lemma boundChans_cong: "boundEvents c' = boundEvents c \<Longrightarrow> boundChans c' n = boundChans c n"
  by (simp add: boundChans_def)

lemma dispatch_deliveries:
  "deliveries (dispatch he event c) =
     deliveries c @ map (\<lambda>boundChan. (boundChan, event)) (boundChans c (Event event))"
  by (simp add: dispatch_def Let_def split: option.splits prod.splits)

lemma Bind_boundChans:
  "Bind event c = Done (c', boundChan) \<Longrightarrow> boundChans c' event = boundChans c event @ [boundChan]"
  by (auto simp: Bind_def Let_def boundChans_def split: option.splits)

lemma resetActivityTimer_returns:
  assumes "\<And>ch. activityTimerReset c = Some ch \<Longrightarrow> \<not> closed ch"
  shows "\<exists>c'. resetActivityTimer c = Some c'"
proof (cases "activityTimerReset c")
  case None
  then show ?thesis by (simp add: resetActivityTimer_def)
next
  case (Some ch)
  with assms have "\<not> closed ch" by simp
  with Some show ?thesis by (simp add: resetActivityTimer_def chan_try_send_def)
qed

lemma sendError_result:
  assumes "\<And>i. Errors c = Some i \<Longrightarrow> \<not> closed (errChans c i)"
  shows "sendError err c =
           Some (c\<lparr>errChans :=
                   (case Errors c of
                      None \<Rightarrow> errChans c
                    | Some i \<Rightarrow>
                        if length (buf (errChans c i)) < cap (errChans c i)
                        then (errChans c)(i := (errChans c i)
                                \<lparr>buf := buf (errChans c i) @ [Some err]\<rparr>)
                        else errChans c)\<rparr>)"
proof (cases "Errors c")
  case None
  then show ?thesis by (simp add: sendError_def)
next
  case (Some i)
  with assms have "\<not> closed (errChans c i)" by simp
  with Some show ?thesis by (simp add: sendError_def chan_try_send_def)
qed

subsection \<open>The handshake\<close>

lemma sint_seconds:
  fixes n :: go_int
  assumes "- 9223372036 \<le> sint n" and "sint n \<le> 9223372036"
  shows "sint (n * Second) = sint n * 1000000000"
proof -
  have "sint (n * Second) = signed_take_bit 63 (sint n * sint Second)"
    by (simp add: sint_word_ariths)
  also have "sint Second = 1000000000"
    by (simp add: Second_def)
  also have "signed_take_bit 63 (sint n * 1000000000) = sint n * 1000000000"
    using assms by (intro signed_take_bit_int_eq_self) auto
  finally show ?thesis .
qed

lemma established_ok:
  "Connect plainString (connDataOf n) (Inr freshConn) (Inr hello)
     (newClient None t (\<lambda>i. make_chan 1)) = (established n t, None)"
  by (simp add: established_def Connect_def UnmarshalDataString_def plainString_def
        connDataOf_def hello_def Let_def event_names)

text \<open>
  C2, as the claim states it, fails: with no override and a server value of 9223372037
  seconds the product with \<^verbatim>\<open>time.Second\<close> leaves the 64-bit range, and the effective
  timeout is a negative duration, not 9223372037 seconds.
\<close>

theorem Connect_activityTimeout_overflow:
  "snd (Connect plainString (connDataOf 9223372037) (Inr freshConn) (Inr hello)
          (newClient None 0 (\<lambda>i. make_chan 1))) = None \<and>
   sint (activityTimeout' (established 9223372037 0)) = - 9223372036709551616 \<and>
   sint (activityTimeout' (established 9223372037 0)) \<noteq> 9223372037 * 1000000000"
  by (simp add: established_ok)
     (simp add: Connect_def UnmarshalDataString_def Let_def event_names example_defs)

text \<open>
  C2, amended: after a successful handshake the effective activity timeout is the
  caller's override whenever that is greater than zero, whatever the server suggested;
  otherwise it is the server's integer times \<^verbatim>\<open>time.Second\<close> in 64-bit wrap-around
  arithmetic, which is exactly that many seconds (in nanoseconds) whenever the integer
  lies between -9223372036 and 9223372036.
\<close>

theorem Connect_activityTimeout:
  assumes "Connect js jd dial (Inr event) c = (c', None)"
      and "UnmarshalDataString js jd (Data event) = Inr connData"
  shows "(0 < sint (ActivityTimeout c) \<longrightarrow> activityTimeout' c' = ActivityTimeout c) \<and>
         (\<not> 0 < sint (ActivityTimeout c) \<longrightarrow>
            activityTimeout' c' = ActivityTimeoutSecs connData * Second \<and>
            (- 9223372036 \<le> sint (ActivityTimeoutSecs connData) \<and>
             sint (ActivityTimeoutSecs connData) \<le> 9223372036 \<longrightarrow>
               sint (activityTimeout' c') = sint (ActivityTimeoutSecs connData) * 1000000000))"
  using assms
  by (auto simp: Connect_def Let_def extractEventError_def sint_seconds
           split: sum.splits if_splits)

theorem Connect_activityTimeout_witness:
  "activityTimeout' (established 120 (5 * Second)) = 5 * Second \<and>
   sint (activityTimeout' (established 120 0)) = 120 * 1000000000"
proof -
  have dec: "UnmarshalDataString plainString (connDataOf n) (Data hello) =
               Inr \<lparr>SocketID = ''1.1'', ActivityTimeoutSecs = n\<rparr>" for n
    by (simp add: UnmarshalDataString_def plainString_def connDataOf_def hello_def)
  have a: "activityTimeout' (established 120 (5 * Second)) = 5 * Second"
    using Connect_activityTimeout [OF established_ok [of 120 "5 * Second"] dec]
    by (simp add: newClient_def Second_def)
  have b: "sint (activityTimeout' (established 120 0)) = 120 * 1000000000"
    using Connect_activityTimeout [OF established_ok [of 120 0] dec]
    by (simp add: newClient_def Second_def)
  from a b show ?thesis by simp
qed

text \<open>
  C3, as the claim states it, fails in its last part: \<^verbatim>\<open>Connect\<close> never writes the connected
  flag on a failure path, neither to set it nor to clear it, and nothing keeps it from
  being called on a connected client. Called on the connected client \<open>established 120 0\<close>,
  a handshake that meets an error envelope returns the protocol error, and so does a
  failed dial its error, and the client is still marked connected.
\<close>

theorem Connect_failure_stays_connected:
  "connected (established 120 0) \<and>
   snd (Connect plainString (connDataOf 120) (Inr freshConn)
          (Inr \<lparr>Event = pusherError, Data = ''4001'', Channel = []\<rparr>)
          (established 120 0)) = Some (EventError ''4001'') \<and>
   connected (fst (Connect plainString (connDataOf 120) (Inr freshConn)
          (Inr \<lparr>Event = pusherError, Data = ''4001'', Channel = []\<rparr>)
          (established 120 0))) \<and>
   snd (Connect plainString (connDataOf 120) (Inl (External ''connection refused''))
          (Inr hello) (established 120 0)) = Some (External ''connection refused'') \<and>
   connected (fst (Connect plainString (connDataOf 120) (Inl (External ''connection refused''))
          (Inr hello) (established 120 0)))"
  by (simp add: established_def Connect_def UnmarshalDataString_def Let_def event_names
        extractEventError_def plainString_def connDataOf_def hello_def newClient_def)

text \<open>
  C3, amended: \<^verbatim>\<open>Connect\<close> reads one envelope after dialling. An error envelope makes it
  return the extracted protocol error; the connection-established envelope, decoded twice,
  gives the socket id and the activity timeout and marks the session connected; any other
  event name gives the unknown-event error. In every failure case (dial, read, error
  envelope, undecodable payload, unexpected event) the connected flag is left as it was
  before the call, so a session that was not connected when \<^verbatim>\<open>Connect\<close> was called is left
  not connected.
\<close>

theorem Connect_handshake:
  "(Event event = pusherError \<longrightarrow>
      snd (Connect js jd (Inr conn) (Inr event) c) = Some (extractEventError event)) \<and>
   (Event event = pusherConnEstablished \<and> js (Data event) = Inr dataStr \<and>
    jd dataStr = Inr connData \<longrightarrow>
      snd (Connect js jd (Inr conn) (Inr event) c) = None \<and>
      connected (fst (Connect js jd (Inr conn) (Inr event) c)) \<and>
      socketID (fst (Connect js jd (Inr conn) (Inr event) c)) = SocketID connData \<and>
      activityTimeout' (fst (Connect js jd (Inr conn) (Inr event) c)) =
        (if 0 < sint (ActivityTimeout c) then ActivityTimeout c
         else ActivityTimeoutSecs connData * Second)) \<and>
   (Event event \<noteq> pusherError \<and> Event event \<noteq> pusherConnEstablished \<longrightarrow>
      snd (Connect js jd (Inr conn) (Inr event) c) =
        Some (Errorf (''Got unknown event type from Pusher: '' @ Event event))) \<and>
   (snd (Connect js jd dial recv c) \<noteq> None \<longrightarrow>
      connected (fst (Connect js jd dial recv c)) = connected c) \<and>
   (\<not> connected c \<and> snd (Connect js jd dial recv c) \<noteq> None \<longrightarrow>
      \<not> connected (fst (Connect js jd dial recv c)))"
  by (auto simp: Connect_def Let_def UnmarshalDataString_def event_names
           split: sum.splits if_splits)

theorem Connect_handshake_witness:
  "snd (Connect plainString (connDataOf 120) (Inr freshConn)
          (Inr \<lparr>Event = pusherError, Data = ''4001'', Channel = []\<rparr>)
          (newClient None 0 (\<lambda>i. make_chan 1))) = Some (EventError ''4001'') \<and>
   \<not> connected (fst (Connect plainString (connDataOf 120) (Inr freshConn)
          (Inr \<lparr>Event = pusherError, Data = ''4001'', Channel = []\<rparr>)
          (newClient None 0 (\<lambda>i. make_chan 1)))) \<and>
   snd (Connect plainString (connDataOf 120) (Inr freshConn) (Inr hello)
          (newClient None 0 (\<lambda>i. make_chan 1))) = None \<and>
   connected (fst (Connect plainString (connDataOf 120) (Inr freshConn) (Inr hello)
          (newClient None 0 (\<lambda>i. make_chan 1)))) \<and>
   socketID (fst (Connect plainString (connDataOf 120) (Inr freshConn) (Inr hello)
          (newClient None 0 (\<lambda>i. make_chan 1)))) = ''1.1'' \<and>
   snd (Connect plainString (connDataOf 120) (Inr freshConn)
          (Inr \<lparr>Event = pusherPing, Data = ''{}'', Channel = []\<rparr>)
          (newClient None 0 (\<lambda>i. make_chan 1))) =
     Some (Errorf ''Got unknown event type from Pusher: pusher:ping'')"
  using
    Connect_handshake [of "\<lparr>Event = pusherError, Data = ''4001'', Channel = []\<rparr>"
      plainString "connDataOf 120" freshConn "newClient None 0 (\<lambda>i. make_chan 1)"
      "''4001''" "\<lparr>SocketID = ''4001'', ActivityTimeoutSecs = 120\<rparr>"
      "Inr freshConn" "Inr \<lparr>Event = pusherError, Data = ''4001'', Channel = []\<rparr>"]
    Connect_handshake [of hello
      plainString "connDataOf 120" freshConn "newClient None 0 (\<lambda>i. make_chan 1)"
      "''1.1''" "\<lparr>SocketID = ''1.1'', ActivityTimeoutSecs = 120\<rparr>"
      "Inr freshConn" "Inr hello"]
    Connect_handshake [of "\<lparr>Event = pusherPing, Data = ''{}'', Channel = []\<rparr>"
      plainString "connDataOf 120" freshConn "newClient None 0 (\<lambda>i. make_chan 1)"
      "''{}''" "\<lparr>SocketID = ''{}'', ActivityTimeoutSecs = 120\<rparr>"
      "Inr freshConn" "Inr \<lparr>Event = pusherPing, Data = ''{}'', Channel = []\<rparr>"]
  by (simp add: extractEventError_def event_names plainString_def connDataOf_def hello_def
        newClient_def)

lemma established_eval:
  "established n t =
     \<lparr>Errors = None, closes = [], disconnectErr = None, socketID = ''1.1'',
      ActivityTimeout = t,
      activityTimeout' = (if 0 < sint t then t else n * Second),
      ws = Some freshConn, connected = True,
      activityTimer = Some (NewTimer (if 0 < sint t then t else n * Second)),
      activityTimerReset = Some (make_chan 1), boundEvents = Some Map.empty,
      subscribedChannels = Some Map.empty,
      errChans = (\<lambda>i. make_chan 1), nextChan = 0, entries = Map.empty, nextAddr = 0,
      deliveries = [], dataDeliveries = [], loops = 1\<rparr>"
  by (simp add: established_def Connect_def UnmarshalDataString_def plainString_def
        connDataOf_def hello_def Let_def event_names newClient_def)


subsection \<open>The read loop\<close>

text \<open>
  C1, as the claim states it, fails: a listener bound with \<^verbatim>\<open>Bind\<close> to the reserved name
  \<^verbatim>\<open>pusher_internal:member_added\<close> is sent the envelope of that name. The \<^verbatim>\<open>switch\<close> of
  \<^verbatim>\<open>listen\<close> sets apart ping, pong and error only; every other name takes the \<^verbatim>\<open>default\<close>
  branch, which hands the envelope to the bound channels.
\<close>

theorem listen_delivers_reserved:
  "map_option snd (result (Bind pusherInternalMemberAdded (established 120 0))) = Some 0 \<and>
   map_option (deliveries \<circ> fst)
     (result (and_then (Bind pusherInternalMemberAdded (established 120 0))
                (listen_body noHandler (Inr memberAdded) \<circ> fst))) =
     Some [(0, memberAdded)]"
  by (simp add: established_eval Bind_def Let_def result_def and_then_def listen_body_def
        resetActivityTimer_def chan_try_send_def make_chan_def dispatch_def boundChans_def
        memberAdded_def event_names)


text \<open>
  C1, amended: an envelope named ping, pong or error is not delivered to any listener
  registered with the session-level \<^verbatim>\<open>Bind\<close>; every other envelope, the reserved names
  connection established, subscription succeeded (generic and internal), member added
  and member removed among them, is handed to each listener bound to its name, once.
\<close>

theorem listen_deliveries:
  assumes "listen_body he (Inr event) c = Done (c', goOn)"
  shows "(Event event \<in> {pusherPing, pusherPong, pusherError} \<longrightarrow>
            deliveries c' = deliveries c) \<and>
         (Event event \<notin> {pusherPing, pusherPong, pusherError} \<longrightarrow>
            deliveries c' =
              deliveries c @ map (\<lambda>boundChan. (boundChan, event)) (boundChans c (Event event)))"
  using assms
  by (auto simp: listen_body_def dispatch_deliveries resetActivityTimer_fields sendError_fields
                 boundChans_cong [OF resetActivityTimer_fields(2)]
           split: option.splits if_splits)


theorem listen_deliveries_witness:
  "(\<exists>c'. listen_body noHandler (Inr \<lparr>Event = pusherPing, Data = ''{}'', Channel = []\<rparr>)
            ((established 120 0)\<lparr>boundEvents := Some [pusherPing \<mapsto> [0]], nextChan := 1\<rparr>) =
            Done (c', True) \<and> deliveries c' = []) \<and>
   (\<exists>c'. listen_body noHandler (Inr memberAdded)
            ((established 120 0)\<lparr>boundEvents := Some [pusherInternalMemberAdded \<mapsto> [0]],
                                 nextChan := 1\<rparr>) =
            Done (c', True) \<and> deliveries c' = [(0, memberAdded)])"
proof -
  let ?ping = "\<lparr>Event = pusherPing, Data = ''{}'', Channel = []\<rparr>"
  let ?c1 = "(established 120 0)\<lparr>boundEvents := Some [pusherPing \<mapsto> [0]], nextChan := 1\<rparr>"
  let ?c2 = "(established 120 0)\<lparr>boundEvents := Some [pusherInternalMemberAdded \<mapsto> [0]],
                                 nextChan := 1\<rparr>"
  obtain c1' where r1: "listen_body noHandler (Inr ?ping) ?c1 = Done (c1', True)"
    by (simp add: established_eval listen_body_def resetActivityTimer_def chan_try_send_def
          make_chan_def freshConn_def event_names)
  obtain c2' where r2: "listen_body noHandler (Inr memberAdded) ?c2 = Done (c2', True)"
    by (simp add: established_eval listen_body_def resetActivityTimer_def chan_try_send_def
          make_chan_def memberAdded_def event_names)
  have "deliveries c1' = []"
    using listen_deliveries [OF r1] by (simp add: established_eval event_names)
  moreover have "deliveries c2' = [(0, memberAdded)]"
    using listen_deliveries [OF r2]
    by (simp add: established_eval event_names memberAdded_def boundChans_def)
  ultimately show ?thesis using r1 r2 by simp
qed


text \<open>
  C9: a \<^verbatim>\<open>pusher:error\<close> envelope read by the loop is passed to \<^verbatim>\<open>Errors\<close> with a
  non-blocking send (nothing is sent when the channel is nil or full) and the loop goes
  on; the connected flag stays true, the bound events, the registry and its entries, the
  close listeners, the disconnect cause and the connection are as before, and nothing is
  delivered. The reset channel is the one the client made, never closed, and \<^verbatim>\<open>Errors\<close>
  is not closed.
\<close>

theorem listen_error_envelope:
  assumes "Event event = pusherError"
      and "connected c"
      and reset: "\<And>ch. activityTimerReset c = Some ch \<Longrightarrow> \<not> closed ch"
      and errs: "\<And>i. Errors c = Some i \<Longrightarrow> \<not> closed (errChans c i)"
  shows "\<exists>c'. listen_body he (Inr event) c = Done (c', True) \<and>
           connected c' \<and> boundEvents c' = boundEvents c \<and>
           subscribedChannels c' = subscribedChannels c \<and> entries c' = entries c \<and>
           closes c' = closes c \<and> disconnectErr c' = disconnectErr c \<and> ws c' = ws c \<and>
           deliveries c' = deliveries c \<and> dataDeliveries c' = dataDeliveries c \<and>
           errChans c' =
             (case Errors c of
                None \<Rightarrow> errChans c
              | Some i \<Rightarrow>
                  if length (buf (errChans c i)) < cap (errChans c i)
                  then (errChans c)(i := (errChans c i)
                          \<lparr>buf := buf (errChans c i) @ [Some (extractEventError event)]\<rparr>)
                  else errChans c)"
proof -
  obtain c1 where r: "resetActivityTimer c = Some c1"
    using resetActivityTimer_returns [OF reset] by blast
  note f = resetActivityTimer_fields [OF r]
  have "\<And>i. Errors c1 = Some i \<Longrightarrow> \<not> closed (errChans c1 i)"
    using errs f by simp
  from sendError_result [OF this, of "extractEventError event"]
  have "sendError (extractEventError event) c1 =
          Some (c1\<lparr>errChans :=
                   (case Errors c of
                      None \<Rightarrow> errChans c
                    | Some i \<Rightarrow>
                        if length (buf (errChans c i)) < cap (errChans c i)
                        then (errChans c)(i := (errChans c i)
                                \<lparr>buf := buf (errChans c i) @ [Some (extractEventError event)]\<rparr>)
                        else errChans c)\<rparr>)"
    unfolding f(9) f(10) .
  then have body: "listen_body he (Inr event) c =
                Done (c1\<lparr>errChans :=
                   (case Errors c of
                      None \<Rightarrow> errChans c
                    | Some i \<Rightarrow>
                        if length (buf (errChans c i)) < cap (errChans c i)
                        then (errChans c)(i := (errChans c i)
                                \<lparr>buf := buf (errChans c i) @ [Some (extractEventError event)]\<rparr>)
                        else errChans c)\<rparr>, True)"
    using assms(1) r by (simp add: listen_body_def event_names)
  show ?thesis
    unfolding body using f assms(2) by simp
qed


theorem listen_error_envelope_witness:
  "\<exists>c'. listen_body noHandler (Inr \<lparr>Event = pusherError, Data = ''4004'', Channel = []\<rparr>)
           ((established 120 0)\<lparr>Errors := Some 7\<rparr>) = Done (c', True) \<and>
         connected c' \<and> closes c' = [] \<and> buf (errChans c' 7) = [Some (EventError ''4004'')] \<and>
         ws c' = Some freshConn"
proof -
  obtain c' where
    "listen_body noHandler (Inr \<lparr>Event = pusherError, Data = ''4004'', Channel = []\<rparr>)
       ((established 120 0)\<lparr>Errors := Some 7\<rparr>) = Done (c', True)"
    "connected c'" "closes c' = closes ((established 120 0)\<lparr>Errors := Some 7\<rparr>)"
    "ws c' = ws ((established 120 0)\<lparr>Errors := Some 7\<rparr>)"
    "errChans c' = (\<lambda>i. make_chan 1)(7 := \<lparr>cap = 1,
        buf = [Some (extractEventError \<lparr>Event = pusherError, Data = ''4004'', Channel = []\<rparr>)],
        closed = False\<rparr>)"
    using listen_error_envelope [of "\<lparr>Event = pusherError, Data = ''4004'', Channel = []\<rparr>"
        "(established 120 0)\<lparr>Errors := Some 7\<rparr>" noHandler]
    by (auto simp: established_eval make_chan_def)
  then show ?thesis
    by (intro exI [of _ c']) (simp add: established_eval extractEventError_def)
qed


subsection \<open>Disconnecting\<close>

lemma broadcast_ready:
  assumes "listeners_ready chans refs"
  shows "\<exists>chans'. broadcast v refs chans = Done chans' \<and>
           (\<forall>i. Some i \<in> set refs \<longrightarrow>
                  chans' i = (chans i)\<lparr>buf := buf (chans i) @ [v], closed := True\<rparr>) \<and>
           (\<forall>i. Some i \<notin> set refs \<longrightarrow> chans' i = chans i)"
  using assms
proof (induction refs arbitrary: chans)
  case Nil
  then show ?case by simp
next
  case (Cons r rest)
  from Cons.prems obtain j where r: "r = Some j" and rdy: "ready (chans j)"
    and fresh: "Some j \<notin> set rest" and rest: "listeners_ready chans rest"
    by (auto simp: listeners_ready_def split: option.splits)
  let ?ch = "(chans j)\<lparr>buf := buf (chans j) @ [v], closed := True\<rparr>"
  let ?chans = "chans(j := ?ch)"
  have "listeners_ready ?chans rest"
    using rest fresh
    by (auto simp: listeners_ready_def list_all_iff split: option.splits)
  from Cons.IH [OF this] obtain chans' where
    b: "broadcast v rest ?chans = Done chans'"
    and hit: "\<forall>i. Some i \<in> set rest \<longrightarrow>
                chans' i = (?chans i)\<lparr>buf := buf (?chans i) @ [v], closed := True\<rparr>"
    and miss: "\<forall>i. Some i \<notin> set rest \<longrightarrow> chans' i = ?chans i"
    by blast
  have step: "broadcast v (r # rest) chans = Done chans'"
    using r rdy b by (simp add: chan_send_def chan_close_def ready_def)
  have "\<forall>i. Some i \<in> set (r # rest) \<longrightarrow>
              chans' i = (chans i)\<lparr>buf := buf (chans i) @ [v], closed := True\<rparr>"
    using hit miss fresh r by auto
  moreover have "\<forall>i. Some i \<notin> set (r # rest) \<longrightarrow> chans' i = chans i"
    using miss r by auto
  ultimately show ?case using step by blast
qed

lemma Disconnect_Done:
  assumes "broadcast (closeValue (disconnectErr c)) (closes c) (errChans c) = Done chans'"
  shows "Disconnect c =
           Done (c\<lparr>connected := False, errChans := chans', closes := [],
                   ws := map_option (fst \<circ> ws_close) (ws c)\<rparr>,
                 case ws c of None \<Rightarrow> None | Some conn \<Rightarrow> snd (ws_close conn))"
  using assms by (cases "ws c") (simp_all add: Disconnect_def Let_def case_prod_beta)

lemma never_established_fields:
  "never_established c \<Longrightarrow> ws c = None \<and> disconnectErr c = None \<and> \<not> connected c"
  by (induction rule: never_established.induct)
     (simp_all add: newClient_def NotifyClose_def Connect_def)


text \<open>
  A read failure in the loop records the cause and disconnects: every listener is sent
  the wrapped cause.
\<close>

lemma listen_read_failure:
  assumes "connected c"
      and "Errors c = None"
      and "listeners_ready (errChans c) (closes c)"
  shows "\<exists>c'. listen_body he (Inl err) c = Done (c', False) \<and> \<not> connected c' \<and>
           disconnectErr c' = Some err \<and> closes c' = [] \<and>
           (\<forall>i. Some i \<in> set (closes c) \<longrightarrow>
              buf (errChans c' i) =
                buf (errChans c i) @
                  [Some (Wrapf ''pusher connection closed with error: '' err)] \<and>
              closed (errChans c' i))"
proof -
  let ?c = "c\<lparr>disconnectErr := Some err\<rparr>"
  have "listeners_ready (errChans ?c) (closes ?c)"
    using assms(3) by simp
  from broadcast_ready [OF this, of "closeValue (disconnectErr ?c)"] obtain chans' where
    b: "broadcast (closeValue (disconnectErr ?c)) (closes ?c) (errChans ?c) = Done chans'"
    and hit: "\<forall>i. Some i \<in> set (closes c) \<longrightarrow>
                chans' i = (errChans c i)
                  \<lparr>buf := buf (errChans c i) @
                     [Some (Wrapf ''pusher connection closed with error: '' err)],
                   closed := True\<rparr>"
    by (auto simp: closeValue_def)
  show ?thesis
    using Disconnect_Done [OF b] assms(1,2) hit
    by (simp add: listen_body_def isConnected_def sendError_def)
qed


text \<open>
  C6: \<^verbatim>\<open>Disconnect\<close> sends one value to every registered close listener, the recorded
  disconnect cause wrapped in a new error, or nil when none was recorded, then closes the
  listener's channel, and empties the list, so that a second \<^verbatim>\<open>Disconnect\<close> sends nothing
  more. The listeners are channels the sends can complete on: each registered once, not
  nil, not closed, with a receiver or a free buffer slot.
\<close>

theorem Disconnect_notifies:
  assumes "listeners_ready (errChans c) (closes c)"
  shows "\<exists>c' r. Disconnect c = Done (c', r) \<and> \<not> connected c' \<and> closes c' = [] \<and>
           (\<forall>i. Some i \<in> set (closes c) \<longrightarrow>
              buf (errChans c' i) =
                buf (errChans c i) @
                  [case disconnectErr c of
                     None \<Rightarrow> None
                   | Some e \<Rightarrow> Some (Wrapf ''pusher connection closed with error: '' e)] \<and>
              closed (errChans c' i)) \<and>
           (\<forall>i. Some i \<notin> set (closes c) \<longrightarrow> errChans c' i = errChans c i) \<and>
           (\<exists>c'' r'. Disconnect c' = Done (c'', r') \<and> errChans c'' = errChans c')"
proof -
  let ?v = "closeValue (disconnectErr c)"
  from broadcast_ready [OF assms, of ?v] obtain chans' where
    b: "broadcast ?v (closes c) (errChans c) = Done chans'"
    and hit: "\<forall>i. Some i \<in> set (closes c) \<longrightarrow>
                chans' i = (errChans c i)\<lparr>buf := buf (errChans c i) @ [?v], closed := True\<rparr>"
    and miss: "\<forall>i. Some i \<notin> set (closes c) \<longrightarrow> chans' i = errChans c i"
    by blast
  obtain c' r where d: "Disconnect c = Done (c', r)"
    and f: "\<not> connected c'" "closes c' = []" "errChans c' = chans'"
    using Disconnect_Done [OF b] by simp
  have "broadcast (closeValue (disconnectErr c')) (closes c') (errChans c') = Done (errChans c')"
    using f by simp
  from Disconnect_Done [OF this]
  have again: "\<exists>c'' r'. Disconnect c' = Done (c'', r') \<and> errChans c'' = errChans c'"
    by simp
  show ?thesis
    using d f hit miss again by (auto simp: closeValue_def)
qed


theorem Disconnect_notifies_witness:
  "\<exists>c' r. Disconnect (fst (NotifyClose (Some 2) (fst (NotifyClose (Some 1)
                 ((established 120 0)\<lparr>disconnectErr := Some (External ''EOF'')\<rparr>))))) =
             Done (c', r) \<and>
           closes c' = [] \<and>
           buf (errChans c' 1) =
             [Some (Wrapf ''pusher connection closed with error: '' (External ''EOF''))] \<and>
           buf (errChans c' 2) =
             [Some (Wrapf ''pusher connection closed with error: '' (External ''EOF''))] \<and>
           closed (errChans c' 1) \<and> closed (errChans c' 2)"
proof -
  let ?c = "fst (NotifyClose (Some 2) (fst (NotifyClose (Some 1)
                 ((established 120 0)\<lparr>disconnectErr := Some (External ''EOF'')\<rparr>))))"
  have l: "listeners_ready (errChans ?c) (closes ?c)"
    by (simp add: listeners_ready_def ready_def NotifyClose_def established_eval make_chan_def)
  from Disconnect_notifies [OF l] obtain c' r where
    "Disconnect ?c = Done (c', r)" "closes c' = []"
    "\<forall>i. Some i \<in> set (closes ?c) \<longrightarrow>
              buf (errChans c' i) =
                buf (errChans ?c i) @
                  [case disconnectErr ?c of
                     None \<Rightarrow> None
                   | Some e \<Rightarrow> Some (Wrapf ''pusher connection closed with error: '' e)] \<and>
              closed (errChans c' i)"
    by blast
  then show ?thesis
    by (intro exI [of _ c'] exI [of _ r])
       (simp add: NotifyClose_def established_eval make_chan_def)
qed


text \<open>
  C10: on a client whose connection handle was never established, \<^verbatim>\<open>Disconnect\<close> returns
  nil: it marks the session not connected, sends nil to every registered close listener
  and closes its channel, empties the list, and leaves the absent connection alone.
\<close>

theorem Disconnect_never_established:
  assumes "never_established c"
      and "listeners_ready (errChans c) (closes c)"
  shows "\<exists>c'. Disconnect c = Done (c', None) \<and> \<not> connected c' \<and> ws c' = None \<and>
           closes c' = [] \<and>
           (\<forall>i. Some i \<in> set (closes c) \<longrightarrow>
              buf (errChans c' i) = buf (errChans c i) @ [None] \<and> closed (errChans c' i)) \<and>
           (\<forall>i. Some i \<notin> set (closes c) \<longrightarrow> errChans c' i = errChans c i)"
proof -
  from never_established_fields [OF assms(1)]
  have nil: "ws c = None" and cause: "disconnectErr c = None"
    by simp_all
  from broadcast_ready [OF assms(2), of "closeValue (disconnectErr c)"] obtain chans' where
    b: "broadcast (closeValue (disconnectErr c)) (closes c) (errChans c) = Done chans'"
    and hit: "\<forall>i. Some i \<in> set (closes c) \<longrightarrow>
                chans' i = (errChans c i)\<lparr>buf := buf (errChans c i) @ [None], closed := True\<rparr>"
    and miss: "\<forall>i. Some i \<notin> set (closes c) \<longrightarrow> chans' i = errChans c i"
    using cause by (auto simp: closeValue_def)
  show ?thesis
    using Disconnect_Done [OF b] nil hit miss by simp
qed


theorem Disconnect_never_established_witness:
  "\<exists>c'. Disconnect (fst (NotifyClose (Some 1) (newClient None 0 (\<lambda>i. make_chan 1)))) =
           Done (c', None) \<and>
         \<not> connected c' \<and> ws c' = None \<and> closes c' = [] \<and>
         buf (errChans c' 1) = [None] \<and> closed (errChans c' 1)"
proof -
  let ?c = "fst (NotifyClose (Some 1) (newClient None 0 (\<lambda>i. make_chan 1)))"
  have n: "never_established ?c"
    by (intro never_established.intros)
  have l: "listeners_ready (errChans ?c) (closes ?c)"
    by (simp add: listeners_ready_def ready_def NotifyClose_def newClient_def make_chan_def)
  from Disconnect_never_established [OF n l] obtain c' where
    "Disconnect ?c = Done (c', None)" "\<not> connected c'" "ws c' = None" "closes c' = []"
    "\<forall>i. Some i \<in> set (closes ?c) \<longrightarrow>
         buf (errChans c' i) = buf (errChans ?c i) @ [None] \<and> closed (errChans c' i)"
    by blast
  then show ?thesis
    by (intro exI [of _ c']) (simp add: NotifyClose_def newClient_def make_chan_def)
qed



subsection \<open>The activity timer\<close>

lemma resetActivityTimer_slot:
  assumes "activityTimerReset c = Some ch" and "cap ch = 1" and "\<not> closed ch"
      and "length (buf ch) \<le> 1"
  shows "resetActivityTimer c = Some (c\<lparr>activityTimerReset := Some (ch\<lparr>buf := [()]\<rparr>)\<rparr>)"
proof (cases "buf ch")
  case Nil
  with assms show ?thesis
    by (simp add: resetActivityTimer_def chan_try_send_def)
next
  case (Cons x xs)
  with assms have "buf ch = [()]" by simp
  then have "ch\<lparr>buf := [()]\<rparr> = ch" by simp
  moreover have "c\<lparr>activityTimerReset := Some ch\<rparr> = c"
    using assms(1) by simp
  moreover have "resetActivityTimer c = Some c"
    using assms \<open>buf ch = [()]\<close> by (simp add: resetActivityTimer_def chan_try_send_def)
  ultimately show ?thesis by simp
qed

lemma requests_full:
  assumes "activityTimerReset c = Some ch" and "\<not> closed ch" and "\<not> length (buf ch) < cap ch"
  shows "requests n c = Some c"
proof (induction n)
  case 0
  show ?case by simp
next
  case (Suc n)
  have "chan_try_send ch () = Some ch"
    using assms(2,3) by (simp add: chan_try_send_def)
  moreover have "c\<lparr>activityTimerReset := Some ch\<rparr> = c"
    using assms(1) by simp
  ultimately have "resetActivityTimer c = Some c"
    using assms(1) by (simp add: resetActivityTimer_def)
  with Suc show ?case by simp
qed

lemma requests_slot:
  assumes "activityTimerReset c = Some ch" and "cap ch = 1" and "\<not> closed ch"
      and "length (buf ch) \<le> 1" and "0 < n"
  shows "requests n c = Some (c\<lparr>activityTimerReset := Some (ch\<lparr>buf := [()]\<rparr>)\<rparr>)"
proof -
  obtain m where n: "n = Suc m"
    using assms(5) by (cases n) auto
  define c1 where "c1 = c\<lparr>activityTimerReset := Some (ch\<lparr>buf := [()]\<rparr>)\<rparr>"
  have one: "resetActivityTimer c = Some c1"
    unfolding c1_def using assms(1-4) by (rule resetActivityTimer_slot)
  have "activityTimerReset c1 = Some (ch\<lparr>buf := [()]\<rparr>)"
    by (simp add: c1_def)
  moreover have "\<not> closed (ch\<lparr>buf := [()]\<rparr>)"
    using assms(3) by simp
  moreover have "\<not> length (buf (ch\<lparr>buf := [()]\<rparr>)) < cap (ch\<lparr>buf := [()]\<rparr>)"
    using assms(2) by simp
  ultimately have "requests m c1 = Some c1"
    by (rule requests_full)
  with one show ?thesis
    unfolding n c1_def by simp
qed


text \<open>
  C7: a reset request never waits: \<open>resetActivityTimer\<close> has no blocked outcome, and with
  the channel \<^verbatim>\<open>Connect\<close> makes (capacity one, never closed) every one of \<open>n\<close> requests in a
  row returns. However many there are, they leave what a single request leaves: one
  pending signal in the slot. The reset case of \<^verbatim>\<open>heartbeat\<close> then takes that signal,
  restarts the timer with the effective timeout, and finds no second signal to act on.
\<close>

theorem resets_coalesce:
  assumes "activityTimerReset c = Some ch" and "cap ch = 1" and "\<not> closed ch"
      and "length (buf ch) \<le> 1" and "activityTimer c = Some t" and "0 < n"
  shows "\<exists>c1 c2. requests n c = Some c1 \<and> requests 1 c = Some c1 \<and>
           activityTimerReset c1 = Some (ch\<lparr>buf := [()]\<rparr>) \<and>
           heartbeat_body ResetCase c1 = Done c2 \<and>
           activityTimerReset c2 = Some (ch\<lparr>buf := []\<rparr>) \<and>
           activityTimer c2 =
             Some \<lparr>running = True, tick = (running t \<and> tick t), period = activityTimeout' c\<rparr> \<and>
           heartbeat_body ResetCase c2 = Blocked"
proof -
  let ?c1 = "c\<lparr>activityTimerReset := Some (ch\<lparr>buf := [()]\<rparr>)\<rparr>"
  let ?t = "\<lparr>running = True, tick = (running t \<and> tick t), period = activityTimeout' c\<rparr>"
  let ?c2 = "c\<lparr>activityTimerReset := Some (ch\<lparr>buf := []\<rparr>), activityTimer := Some ?t\<rparr>"
  have n: "requests n c = Some ?c1"
    using assms by (intro requests_slot) simp_all
  have o: "requests 1 c = Some ?c1"
    using assms by (intro requests_slot) simp_all
  have h: "heartbeat_body ResetCase ?c1 = Done ?c2"
    using assms(5) by (cases t) (simp add: heartbeat_body_def Let_def)
  have b: "heartbeat_body ResetCase ?c2 = Blocked"
    using assms(3) by (simp add: heartbeat_body_def)
  show ?thesis
    using n o h b by simp
qed


theorem resets_coalesce_witness:
  "\<exists>c1 c2. requests 3 (established 120 0) = Some c1 \<and>
           requests 1 (established 120 0) = Some c1 \<and>
           activityTimerReset c1 = Some \<lparr>cap = 1, buf = [()], closed = False\<rparr> \<and>
           heartbeat_body ResetCase c1 = Done c2 \<and>
           activityTimerReset c2 = Some \<lparr>cap = 1, buf = [], closed = False\<rparr> \<and>
           activityTimer c2 = Some \<lparr>running = True, tick = False, period = 120 * Second\<rparr> \<and>
           heartbeat_body ResetCase c2 = Blocked"
  using resets_coalesce [of "established 120 0" "make_chan 1" "NewTimer (120 * Second)" 3]
  by (simp add: established_eval make_chan_def NewTimer_def)


subsection \<open>The channel registry\<close>



lemma SendEvent_Done:
  assumes "resetActivityTimer c = Some c1" and "ws c = Some conn"
  shows "SendEvent event (Inr d) channelName c =
           Done (c1\<lparr>ws := Some (conn\<lparr>writes := writes conn @
                    [JSONFrame \<lparr>Event = event, Data = d, Channel = channelName\<rparr>]\<rparr>)\<rparr>,
                 fault conn)"
  using assms resetActivityTimer_fields(8) [OF assms(1)]
  by (simp add: SendEvent_def ws_send_def)

lemma SendEvent_fields:
  assumes "SendEvent event marshalled channelName c = Done (c', err)"
  shows "subscribedChannels c' = subscribedChannels c" "entries c' = entries c"
    "nextAddr c' = nextAddr c" "socketID c' = socketID c"
  using assms
  by (auto simp: SendEvent_def ws_send_def resetActivityTimer_fields
           split: sum.splits option.splits)

lemma SendEvent_error:
  "SendEvent event (Inl e) channelName c = Done (c, Some e)"
  by (simp add: SendEvent_def)

lemma register_existing:
  "lookupChannel c channelName = Some a \<Longrightarrow> register channelName c = Done (c, a)"
  by (simp add: register_def)


lemma register_registers:
  assumes "register channelName c = Done (c1, a)"
  shows "lookupChannel c1 channelName = Some a"
  using assms
  by (auto simp: register_def lookupChannel_def Let_def split: option.splits)


lemma channel_Subscribe_fields:
  assumes "channel_Subscribe enc auth opts a c = Done (c', err)"
  shows "subscribedChannels c' = subscribedChannels c" "nextAddr c' = nextAddr c"
    "entries c b = Some e \<Longrightarrow>
       \<exists>e'. entries c' b = Some e' \<and> wrapper e' = wrapper e \<and> name e' = name e"
proof -
  obtain ch where ch: "entries c a = Some ch"
    using assms by (auto simp: channel_Subscribe_def split: option.splits)
  let ?c = "c\<lparr>entries := (entries c)(a \<mapsto> ch\<lparr>state := Subscribing\<rparr>)\<rparr>"
  consider (same) "c' = c" | (marked) "c' = ?c"
    | (sent) event m n where "SendEvent event m n ?c = Done (c', err)"
    using assms ch
    by (auto simp: channel_Subscribe_def Let_def split: if_splits sum.splits prod.splits)
  then have "subscribedChannels c' = subscribedChannels c \<and> nextAddr c' = nextAddr c \<and>
             (c' = c \<or> entries c' = (entries c)(a \<mapsto> ch\<lparr>state := Subscribing\<rparr>))"
  proof cases
    case same
    then show ?thesis by simp
  next
    case marked
    then show ?thesis by simp
  next
    case sent
    from SendEvent_fields [OF sent] show ?thesis by simp
  qed
  then show "subscribedChannels c' = subscribedChannels c" "nextAddr c' = nextAddr c"
    "entries c b = Some e \<Longrightarrow>
       \<exists>e'. entries c' b = Some e' \<and> wrapper e' = wrapper e \<and> name e' = name e"
    using ch by auto
qed

lemma Subscribe_unfold:
  assumes "register channelName c = Done (c1, a)"
  shows "Subscribe enc auth channelName opts c =
           (case channel_Subscribe enc auth opts a c1 of
              Done (c2, err) \<Rightarrow> Done (c2, a, err)
            | Panicked \<Rightarrow> Panicked
            | Blocked \<Rightarrow> Blocked)"
  using assms by (simp add: Subscribe_def split: outcome.splits)

lemma Subscribe_Done:
  assumes "Subscribe enc auth channelName opts c = Done (c2, a, err)"
  shows "\<exists>c1. register channelName c = Done (c1, a) \<and>
           channel_Subscribe enc auth opts a c1 = Done (c2, err)"
  using assms by (auto simp: Subscribe_def split: outcome.splits prod.splits)






lemma Subscribe_first_example:
  "Subscribe nameOnly signWithSocket ''news'' [] (established 120 0) =
     Done (subscribedToNews, 0, None)"
  by (simp add: subscribedToNews_def established_eval Subscribe_def register_def
        lookupChannel_def classify_def HasPrefix_def channel_Subscribe_def SendEvent_def
        resetActivityTimer_def chan_try_send_def make_chan_def ws_send_def nameOnly_def
        freshConn_def Let_def)


text \<open>
  A \<^verbatim>\<open>Subscribe\<close> for a name that is registered returns the registered entry, allocates
  nothing and leaves the registry as it is; like the first call it ends with the entry's
  own \<^verbatim>\<open>Subscribe\<close>, so two calls in a row return the same entry. What the entry's method
  sends on the second call is decided outside \<^verbatim>\<open>client.go\<close>.
\<close>

lemma Subscribe_registered:
  assumes "lookupChannel c channelName = Some a"
  shows "Subscribe enc auth channelName opts c =
           (case channel_Subscribe enc auth opts a c of
              Done (c2, err) \<Rightarrow> Done (c2, a, err)
            | Panicked \<Rightarrow> Panicked
            | Blocked \<Rightarrow> Blocked)"
  using register_existing [OF assms] by (rule Subscribe_unfold)

lemma Subscribe_twice_same_entry:
  assumes first: "Subscribe enc auth channelName opts c = Done (c1, ch1, err1)"
      and second: "Subscribe enc auth channelName opts' c1 = Done (c2, ch2, err2)"
  shows "ch2 = ch1 \<and> lookupChannel c1 channelName = Some ch1 \<and>
         subscribedChannels c2 = subscribedChannels c1 \<and> nextAddr c2 = nextAddr c1"
proof -
  from Subscribe_Done [OF first] obtain c0 where
    reg0: "register channelName c = Done (c0, ch1)"
    and sub0: "channel_Subscribe enc auth opts ch1 c0 = Done (c1, err1)"
    by blast
  have look: "lookupChannel c1 channelName = Some ch1"
    using register_registers [OF reg0] channel_Subscribe_fields(1) [OF sub0]
    by (simp add: lookupChannel_def)
  from Subscribe_Done [OF second] register_existing [OF look]
  have same: "ch2 = ch1" and sub1: "channel_Subscribe enc auth opts' ch1 c1 = Done (c2, err2)"
    by auto
  show ?thesis
    using same look channel_Subscribe_fields(1,2) [OF sub1] by simp
qed

text \<open>
  C8: for a name with no entry, \<^verbatim>\<open>Unsubscribe\<close> returns nil and changes nothing, so no
  envelope is sent and the registry is as before. For a name with an entry, whatever the
  entry's subscription state, the entry is removed from the registry, the other names
  keep theirs, and an unsubscribe envelope for the entry is handed to the connection,
  whose answer is returned. The connection is the one \<^verbatim>\<open>Connect\<close> set up.
\<close>

theorem Unsubscribe_registry:
  "(lookupChannel c channelName = None \<longrightarrow> Unsubscribe enc channelName c = Done (c, None)) \<and>
   (lookupChannel c channelName = Some a \<and> entries c a = Some ch \<and> ws c = Some conn \<and>
    (\<forall>r. activityTimerReset c = Some r \<longrightarrow> \<not> closed r) \<and>
    enc \<lparr>sdChannel = name ch, sdAuth = None, sdChannelData = None\<rparr> = Inr d \<longrightarrow>
      (\<exists>c'. Unsubscribe enc channelName c = Done (c', fault conn) \<and>
            lookupChannel c' channelName = None \<and>
            (\<forall>n. n \<noteq> channelName \<longrightarrow> lookupChannel c' n = lookupChannel c n) \<and>
            ws c' = Some (conn\<lparr>writes := writes conn @
                      [JSONFrame \<lparr>Event = pusherUnsubscribe, Data = d, Channel = []\<rparr>]\<rparr>)))"
proof (intro conjI impI)
  assume "lookupChannel c channelName = None"
  then show "Unsubscribe enc channelName c = Done (c, None)"
    by (simp add: Unsubscribe_def)
next
  assume h: "lookupChannel c channelName = Some a \<and> entries c a = Some ch \<and> ws c = Some conn \<and>
    (\<forall>r. activityTimerReset c = Some r \<longrightarrow> \<not> closed r) \<and>
    enc \<lparr>sdChannel = name ch, sdAuth = None, sdChannelData = None\<rparr> = Inr d"
  define c0 where "c0 = c\<lparr>subscribedChannels :=
                      map_option (\<lambda>m. m(channelName := None)) (subscribedChannels c)\<rparr>"
  have "\<And>r. activityTimerReset c0 = Some r \<Longrightarrow> \<not> closed r"
    using h by (simp add: c0_def)
  from resetActivityTimer_returns [OF this] obtain c1 where r: "resetActivityTimer c0 = Some c1"
    by blast
  have w: "ws c0 = Some conn"
    using h by (simp add: c0_def)
  let ?c' = "c1\<lparr>ws := Some (conn\<lparr>writes := writes conn @
                    [JSONFrame \<lparr>Event = pusherUnsubscribe, Data = d, Channel = []\<rparr>]\<rparr>)\<rparr>"
  have u: "Unsubscribe enc channelName c = Done (?c', fault conn)"
    using h SendEvent_Done [OF r w, of pusherUnsubscribe d "[]"]
    by (simp add: Unsubscribe_def channel_Unsubscribe_def c0_def)
  have reg: "subscribedChannels ?c' =
               map_option (\<lambda>m. m(channelName := None)) (subscribedChannels c)"
    using resetActivityTimer_fields(3) [OF r] by (simp add: c0_def)
  have "lookupChannel ?c' channelName = None"
    unfolding lookupChannel_def reg by (cases "subscribedChannels c") simp_all
  moreover have "\<forall>n. n \<noteq> channelName \<longrightarrow> lookupChannel ?c' n = lookupChannel c n"
    unfolding lookupChannel_def reg by (cases "subscribedChannels c") simp_all
  moreover have "ws ?c' = Some (conn\<lparr>writes := writes conn @
                    [JSONFrame \<lparr>Event = pusherUnsubscribe, Data = d, Channel = []\<rparr>]\<rparr>)"
    by simp
  ultimately show "\<exists>c'. Unsubscribe enc channelName c = Done (c', fault conn) \<and>
            lookupChannel c' channelName = None \<and>
            (\<forall>n. n \<noteq> channelName \<longrightarrow> lookupChannel c' n = lookupChannel c n) \<and>
            ws c' = Some (conn\<lparr>writes := writes conn @
                      [JSONFrame \<lparr>Event = pusherUnsubscribe, Data = d, Channel = []\<rparr>]\<rparr>)"
    using u by blast
qed


theorem Unsubscribe_registry_witness:
  "Unsubscribe nameOnly ''sports'' subscribedToNews = Done (subscribedToNews, None) \<and>
   (\<exists>c'. Unsubscribe nameOnly ''news'' subscribedToNews = Done (c', None) \<and>
      lookupChannel c' ''news'' = None \<and>
      ws c' = Some \<lparr>writes = [JSONFrame \<lparr>Event = pusherSubscribe, Data = ''news'',
                                          Channel = []\<rparr>,
                               JSONFrame \<lparr>Event = pusherUnsubscribe, Data = ''news'',
                                          Channel = []\<rparr>],
                     fault = None\<rparr>)"
proof -
  have "Unsubscribe nameOnly ''sports'' subscribedToNews = Done (subscribedToNews, None)"
    using Unsubscribe_registry [where c = subscribedToNews and channelName = "''sports''"
        and enc = nameOnly]
    by (simp add: subscribedToNews_def lookupChannel_def)
  moreover have "\<exists>c'. Unsubscribe nameOnly ''news'' subscribedToNews = Done (c', None) \<and>
      lookupChannel c' ''news'' = None \<and>
      ws c' = Some \<lparr>writes = [JSONFrame \<lparr>Event = pusherSubscribe, Data = ''news'',
                                          Channel = []\<rparr>,
                               JSONFrame \<lparr>Event = pusherUnsubscribe, Data = ''news'',
                                          Channel = []\<rparr>],
                     fault = None\<rparr>"
    using Unsubscribe_registry [where c = subscribedToNews and channelName = "''news''"
        and a = 0 and enc = nameOnly and d = "''news''"
        and ch = "\<lparr>name = ''news'', chBoundEvents = Map.empty, wrapper = PublicChannel,
                  state = Subscribing, members = Map.empty\<rparr>"
        and conn = "\<lparr>writes = [JSONFrame \<lparr>Event = pusherSubscribe, Data = ''news'',
                                              Channel = []\<rparr>],
                    fault = None\<rparr>"]
    by (auto simp: subscribedToNews_def lookupChannel_def nameOnly_def)
  ultimately show ?thesis by simp
qed

end
